theory Spec2Isabelle
  imports Complex_Main
begin

section \<open>Python values, errors and arithmetic\<close>

text \<open>
  The services of the repository (\<^verbatim>\<open>services/model_selector.py\<close>,
  \<^verbatim>\<open>services/distributions.py\<close>, \<^verbatim>\<open>services/data_processor.py\<close>) are
  embedded as HOL functions. Python's unbounded \<^verbatim>\<open>int\<close> is \<^typ>\<open>int\<close>. Python's
  \<^verbatim>\<open>float\<close> is idealised as \<^typ>\<open>real\<close>: every arithmetic operation is exact, so the
  rounding of binary floating point, its overflow and its special values are outside the model.
  Everything that raises in the source is a branch of the model that returns \<open>Inl\<close> of the
  error; a function that returns normally returns \<open>Inr\<close> of its value.

  The text of a message is not modelled as a string: every \<^verbatim>\<open>raise\<close> site and every
  message literal of the source has a constructor of its own, carrying the values that the
  source interpolates into the text.
\<close>

datatype message =
    Selector_N_not_positive
      \<comment> \<open>decide: "La poblacion (N) debe ser mayor que 0"\<close>
  | Selector_K_negative
      \<comment> \<open>decide: "Los exitos en poblacion (K) no pueden ser negativos"\<close>
  | Selector_K_exceeds_N
      \<comment> \<open>decide: "K no puede ser mayor que N"\<close>
  | Selector_n_not_positive
      \<comment> \<open>decide: "El tamano de muestra (n) debe ser mayor que 0"\<close>
  | Selector_n_exceeds_N
      \<comment> \<open>decide: "La muestra (n) no puede ser mayor que la poblacion (N)"\<close>
  | Sample_not_positive
      \<comment> \<open>"El tamano de la muestra (n) debe ser mayor que 0"\<close>
  | Probability_out_of_range
      \<comment> \<open>"La probabilidad (p) debe estar entre 0 y 1"\<close>
  | Successes_out_of_range int
      \<comment> \<open>"El numero de exitos (x) debe estar entre 0 y \{n\}"\<close>
  | Population_not_positive
      \<comment> \<open>"El tamano de la poblacion (N) debe ser mayor que 0"\<close>
  | Sample_exceeds_population
      \<comment> \<open>"El tamano de la muestra (n) no puede ser mayor que la poblacion (N)"\<close>
  | Population_successes_negative
      \<comment> \<open>"El numero de exitos en la poblacion (K) no puede ser negativo"\<close>
  | Population_successes_exceed_N
      \<comment> \<open>"El numero de exitos en la poblacion (K) no puede ser mayor que N"\<close>
  | Sample_successes_negative
      \<comment> \<open>"El numero de exitos en la muestra (x) no puede ser negativo"\<close>
  | Sample_successes_exceed_n int
      \<comment> \<open>"El numero de exitos en la muestra (x) no puede ser mayor que \{n\}"\<close>
  | Sample_successes_exceed_K int
      \<comment> \<open>"El numero de exitos en la muestra (x) no puede ser mayor que K=\{K\}"\<close>
  | Math_domain_error
      \<comment> \<open>raised by \<^verbatim>\<open>math.sqrt\<close> on a negative argument\<close>
  | Column_not_in_file string
      \<comment> \<open>"La columna '\{column_name\}' no existe en el archivo"\<close>
  | Column_without_valid_data
      \<comment> \<open>"La columna no contiene datos validos"\<close>
  | Category_not_in_column string
      \<comment> \<open>"La categoria '\{success_category\}' no existe en la columna o tiene 0 ocurrencias"\<close>

datatype py_error =
    ValueError message
  | ZeroDivisionError
  | DataProcessingError message

type_synonym 'a result = "py_error + 'a"

text \<open>Sequencing of two computations: the first error raised is the one that propagates.\<close>

definition and_then :: "'a result \<Rightarrow> ('a \<Rightarrow> 'b result) \<Rightarrow> 'b result" where
  "and_then m f = (case m of Inl e \<Rightarrow> Inl e | Inr v \<Rightarrow> f v)"

text \<open>Python's true division \<^verbatim>\<open>a / b\<close>: a zero divisor raises.\<close>

definition truediv :: "real \<Rightarrow> real \<Rightarrow> real result" where
  "truediv a b = (if b = 0 then Inl ZeroDivisionError else Inr (a / b))"

text \<open>\<^verbatim>\<open>math.sqrt\<close>: a negative argument raises \<^verbatim>\<open>ValueError\<close>.\<close>

definition math_sqrt :: "real \<Rightarrow> real result" where
  "math_sqrt v = (if v < 0 then Inl (ValueError Math_domain_error) else Inr (sqrt v))"

text \<open>
  \<^verbatim>\<open>round(v, d)\<close>: the nearest multiple of \<open>10\<^sup>-\<^sup>d\<close>, a tie going to the even
  neighbour.
\<close>

definition round_half_even :: "real \<Rightarrow> int" where
  "round_half_even v =
     (let f = \<lfloor>v\<rfloor>; r = v - of_int f
      in if r < 1 / 2 then f
         else if r > 1 / 2 then f + 1
         else if even f then f else f + 1)"

definition py_round :: "real \<Rightarrow> nat \<Rightarrow> real" where
  "py_round v d = of_int (round_half_even (v * 10 ^ d)) / 10 ^ d"

text \<open>\<^verbatim>\<open>int(v)\<close> on a float truncates towards zero.\<close>

definition py_int :: "real \<Rightarrow> int" where
  "py_int v = (if 0 \<le> v then \<lfloor>v\<rfloor> else \<lceil>v\<rceil>)"

section \<open>services/model\_selector.py\<close>







section \<open>services/distributions.py: BinomialDistribution\<close>

datatype population_type = Finita | Infinita

datatype skewness_text =
    Asimetria_negativa_significativa
  | Asimetria_positiva_significativa
  | Aproximadamente_simetrica
  | Ligera_asimetria_negativa
  | Ligera_asimetria_positiva
  | Simetrica

datatype kurtosis_text = Leptocurtica | Platicurtica | Mesocurtica

record binomial_inputs =
  b_n :: int
  b_p :: real
  b_x :: "int option"
  b_N :: "int option"

record binomial_statistics =
  b_mean :: real
  b_variance :: real
  b_std :: real
  b_adjusted_std :: "real option"
  b_correction_factor :: "real option"
  b_skewness :: real
  b_kurtosis :: real

record binomial_interpretations =
  b_skewness_text :: skewness_text
  b_kurtosis_text :: kurtosis_text

record binomial_result =
  b_inputs :: binomial_inputs
  b_population_type :: population_type
  b_population_ratio :: "real option"
  b_statistics :: binomial_statistics
  b_interpretations :: binomial_interpretations
  b_probability_x :: "real option"
  b_probability_x_pct :: "real option"

definition Binomial_validate_inputs :: "int \<Rightarrow> real \<Rightarrow> int option \<Rightarrow> int option \<Rightarrow> unit result" where
  "Binomial_validate_inputs n p x N =
     (if n \<le> 0 then Inl (ValueError Sample_not_positive)
      else if \<not> (0 \<le> p \<and> p \<le> 1) then Inl (ValueError Probability_out_of_range)
      else if (case x of None \<Rightarrow> False | Some xv \<Rightarrow> xv < 0 \<or> xv > n)
        then Inl (ValueError (Successes_out_of_range n))
      else if (case N of None \<Rightarrow> False | Some Nv \<Rightarrow> Nv \<le> 0)
        then Inl (ValueError Population_not_positive)
      else if (case N of None \<Rightarrow> False | Some Nv \<Rightarrow> n > Nv)
        then Inl (ValueError Sample_exceeds_population)
      else Inr ())"

definition determine_population_type :: "int \<Rightarrow> int option \<Rightarrow> (bool \<times> real option) result" where
  "determine_population_type n N =
     (case N of
        None \<Rightarrow> Inr (False, None)
      | Some Nv \<Rightarrow>
          and_then (truediv (of_int n) (of_int Nv)) (\<lambda>ratio.
            if ratio > 0.05 then Inr (True, Some ratio) else Inr (False, Some ratio)))"

definition calculate_correction_factor :: "int \<Rightarrow> int \<Rightarrow> real result" where
  "calculate_correction_factor n N =
     and_then (truediv (of_int (N - n)) (of_int (N - 1))) math_sqrt"

text \<open>
  Modelled from the spec: \<^verbatim>\<open>scipy.stats.binom.pmf\<close> is library code that the
  repository calls and does not contain. It stands here as the probability mass that
  section 4.3 of the specification gives, \<open>C(n,x) p\<^sup>x (1-p)\<^sup>n\<^sup>-\<^sup>x\<close>, and \<open>0\<close> outside
  \<open>0..n\<close>.
\<close>

definition binom_pmf :: "int \<Rightarrow> int \<Rightarrow> real \<Rightarrow> real" where
  "binom_pmf x n p =
     (if 0 \<le> x \<and> x \<le> n
      then of_nat (nat n choose nat x) * p ^ nat x * (1 - p) ^ nat (n - x)
      else 0)"

definition Binomial_calculate_probability :: "int \<Rightarrow> real \<Rightarrow> int \<Rightarrow> real" where
  "Binomial_calculate_probability n p x = binom_pmf x n p"

definition Binomial_calculate_mean :: "int \<Rightarrow> real \<Rightarrow> real" where
  "Binomial_calculate_mean n p = of_int n * p"

definition Binomial_calculate_variance :: "int \<Rightarrow> real \<Rightarrow> real" where
  "Binomial_calculate_variance n p = of_int n * p * (1 - p)"

definition Binomial_calculate_std :: "int \<Rightarrow> real \<Rightarrow> int option \<Rightarrow> (real \<times> real option) result" where
  "Binomial_calculate_std n p N =
     (let variance = Binomial_calculate_variance n p in
      and_then (math_sqrt variance) (\<lambda>std.
        case N of
          None \<Rightarrow> Inr (std, None)
        | Some Nv \<Rightarrow>
            and_then (truediv (of_int n) (of_int Nv)) (\<lambda>ratio.
              if ratio > 0.05
              then and_then (calculate_correction_factor n Nv) (\<lambda>correction.
                     let adjusted_std = std * correction in Inr (std, Some adjusted_std))
              else Inr (std, None))))"

definition Binomial_calculate_skewness :: "int \<Rightarrow> real \<Rightarrow> real result" where
  "Binomial_calculate_skewness n p =
     (let q = 1 - p in
      if p = 0 \<or> p = 1 then Inr 0
      else and_then (math_sqrt (of_int n * p * q)) (\<lambda>s. truediv (1 - 2 * p) s))"

definition Binomial_calculate_kurtosis :: "int \<Rightarrow> real \<Rightarrow> real result" where
  "Binomial_calculate_kurtosis n p =
     (let q = 1 - p in
      if p = 0 \<or> p = 1 then Inr 0
      else truediv (1 - 6 * p * q) (of_int n * p * q))"

definition interpret_skewness :: "real \<Rightarrow> skewness_text" where
  "interpret_skewness skewness =
     (if skewness < - 0.5 then Asimetria_negativa_significativa
      else if skewness > 0.5 then Asimetria_positiva_significativa
      else if - 0.5 \<le> skewness \<and> skewness \<le> 0.5 then
        (if \<bar>skewness\<bar> < 0.1 then Aproximadamente_simetrica
         else if skewness < 0 then Ligera_asimetria_negativa
         else Ligera_asimetria_positiva)
      else Simetrica)"

definition interpret_kurtosis :: "real \<Rightarrow> kurtosis_text" where
  "interpret_kurtosis kurtosis =
     (if kurtosis > 1 then Leptocurtica
      else if kurtosis < - 1 then Platicurtica
      else Mesocurtica)"

text \<open>
  \<^verbatim>\<open>round(adjusted_std, 6) if adjusted_std else None\<close>: the condition is the truth
  value of the operand, which is false for \<^verbatim>\<open>None\<close> and for \<^verbatim>\<open>0.0\<close>.
\<close>

definition round_if_truthy :: "real option \<Rightarrow> real option" where
  "round_if_truthy v =
     (case v of
        None \<Rightarrow> None
      | Some a \<Rightarrow> if a \<noteq> 0 then Some (py_round a 6) else None)"

definition Binomial_calculate :: "int \<Rightarrow> real \<Rightarrow> int option \<Rightarrow> int option \<Rightarrow> binomial_result result" where
  "Binomial_calculate n p x N =
     and_then (Binomial_validate_inputs n p x N) (\<lambda>_.
     and_then (determine_population_type n N) (\<lambda>(is_finite, ratio).
     let mean = Binomial_calculate_mean n p in
     and_then (Binomial_calculate_std n p N) (\<lambda>(std, adjusted_std).
     and_then (Binomial_calculate_skewness n p) (\<lambda>skewness.
     and_then (Binomial_calculate_kurtosis n p) (\<lambda>kurtosis.
     and_then
       (case N of
          None \<Rightarrow> Inr None
        | Some Nv \<Rightarrow>
            if is_finite \<and> Nv \<noteq> 0
            then and_then (calculate_correction_factor n Nv) (\<lambda>c. Inr (Some (py_round c 6)))
            else Inr None) (\<lambda>correction_factor.
     Inr \<lparr>b_inputs = \<lparr>b_n = n, b_p = p, b_x = x, b_N = N\<rparr>,
          b_population_type = (if is_finite then Finita else Infinita),
          b_population_ratio = ratio,
          b_statistics =
            \<lparr>b_mean = py_round mean 6,
             b_variance = py_round (Binomial_calculate_variance n p) 6,
             b_std = py_round std 6,
             b_adjusted_std = round_if_truthy adjusted_std,
             b_correction_factor = correction_factor,
             b_skewness = py_round skewness 6,
             b_kurtosis = py_round kurtosis 6\<rparr>,
          b_interpretations =
            \<lparr>b_skewness_text = interpret_skewness skewness,
             b_kurtosis_text = interpret_kurtosis kurtosis\<rparr>,
          b_probability_x =
            (case x of
               None \<Rightarrow> None
             | Some xv \<Rightarrow> Some (py_round (Binomial_calculate_probability n p xv) 6)),
          b_probability_x_pct =
            (case x of
               None \<Rightarrow> None
             | Some xv \<Rightarrow> Some (py_round (Binomial_calculate_probability n p xv * 100) 4))\<rparr>))))))"

section \<open>services/distributions.py: HypergeometricDistribution\<close>

datatype median_skew_text = Sesgo_Negativo | Sesgo_Positivo | Sesgo_Nulo

record hypergeometric_inputs =
  h_N :: int
  h_K :: int
  h_n :: int
  h_x :: "int option"
  h_p :: real

record hypergeometric_statistics =
  h_mean :: real
  h_median :: int
  h_variance :: real
  h_std :: real
  h_skewness :: real
  h_kurtosis :: real

record hypergeometric_interpretations =
  h_skewness_text :: median_skew_text
  h_kurtosis_text :: kurtosis_text

record hypergeometric_result =
  h_inputs :: hypergeometric_inputs
  h_population_type :: population_type
  h_sample_ratio :: real
  h_statistics :: hypergeometric_statistics
  h_interpretations :: hypergeometric_interpretations
  h_probability_x :: "real option"
  h_probability_x_pct :: "real option"

definition Hypergeometric_validate_inputs :: "int \<Rightarrow> int \<Rightarrow> int \<Rightarrow> int option \<Rightarrow> unit result" where
  "Hypergeometric_validate_inputs N K n x =
     (if N \<le> 0 then Inl (ValueError Population_not_positive)
      else if K < 0 then Inl (ValueError Population_successes_negative)
      else if K > N then Inl (ValueError Population_successes_exceed_N)
      else if n \<le> 0 then Inl (ValueError Sample_not_positive)
      else if n > N then Inl (ValueError Sample_exceeds_population)
      else (case x of
              None \<Rightarrow> Inr ()
            | Some xv \<Rightarrow>
                if xv < 0 then Inl (ValueError Sample_successes_negative)
                else if xv > n then Inl (ValueError (Sample_successes_exceed_n n))
                else if xv > K then Inl (ValueError (Sample_successes_exceed_K K))
                else Inr ()))"

text \<open>
  Modelled from the spec: \<^verbatim>\<open>scipy.stats.hypergeom.pmf\<close> is library code that the
  repository calls and does not contain. It stands here as the probability mass that
  section 4.4 of the specification gives, \<open>C(K,x) C(N-K,n-x) / C(N,n)\<close>, and \<open>0\<close> where
  \<open>x\<close> is outside the support. The arguments are in the order of the call,
  \<^verbatim>\<open>pmf(x, N, K, n)\<close>. The value that the library gives for parameters that are not
  those of a distribution is not modelled; the engine validates them first.
\<close>

definition hypergeom_pmf :: "int \<Rightarrow> int \<Rightarrow> int \<Rightarrow> int \<Rightarrow> real" where
  "hypergeom_pmf x N K n =
     (if 0 \<le> x \<and> x \<le> n \<and> x \<le> K \<and> n - x \<le> N - K
      then of_nat ((nat K choose nat x) * (nat (N - K) choose nat (n - x)))
             / of_nat (nat N choose nat n)
      else 0)"

definition Hypergeometric_calculate_probability :: "int \<Rightarrow> int \<Rightarrow> int \<Rightarrow> int \<Rightarrow> real" where
  "Hypergeometric_calculate_probability N K n x = hypergeom_pmf x N K n"

definition Hypergeometric_calculate_mean :: "int \<Rightarrow> int \<Rightarrow> int \<Rightarrow> real result" where
  "Hypergeometric_calculate_mean N K n =
     and_then (truediv (of_int K) (of_int N)) (\<lambda>r. Inr (of_int n * r))"

definition Hypergeometric_calculate_variance :: "int \<Rightarrow> int \<Rightarrow> int \<Rightarrow> real result" where
  "Hypergeometric_calculate_variance N K n =
     and_then (truediv (of_int K) (of_int N)) (\<lambda>p.
       let q = 1 - p in
       and_then (truediv (of_int (N - n)) (of_int (N - 1))) (\<lambda>fpc.
         Inr (of_int n * p * q * fpc)))"

definition Hypergeometric_calculate_std :: "int \<Rightarrow> int \<Rightarrow> int \<Rightarrow> real result" where
  "Hypergeometric_calculate_std N K n =
     and_then (Hypergeometric_calculate_variance N K n) math_sqrt"

definition Hypergeometric_calculate_skewness :: "int \<Rightarrow> int \<Rightarrow> int \<Rightarrow> real result" where
  "Hypergeometric_calculate_skewness N K n =
     (if N = 1 then Inr 0
      else
        and_then (truediv (of_int K) (of_int N)) (\<lambda>p.
        let q = 1 - p in
        and_then (math_sqrt (of_int (N - 1))) (\<lambda>s1.
        let numerator = of_int (N - 2 * K) * s1 * of_int (N - 2 * n) in
        and_then (math_sqrt (of_int (n * K * (N - K) * (N - n)))) (\<lambda>s2.
        let denominator = s2 * of_int (N - 2) in
        if denominator = 0 then Inr 0
        else truediv numerator denominator))))"

definition Hypergeometric_calculate_kurtosis :: "int \<Rightarrow> int \<Rightarrow> int \<Rightarrow> real result" where
  "Hypergeometric_calculate_kurtosis N K n =
     (if N \<le> 3 then Inr 0
      else
        and_then (truediv (of_int K) (of_int N)) (\<lambda>p.
        let q = 1 - p in
        and_then (truediv (of_int (6 * K * (N - K) * (N - n))) (of_int (n * (N - n)))) (\<lambda>d1.
        let term1 = of_int (N - 1) * (of_int (N * (N + 1)) - d1) in
        and_then (truediv (of_int (3 * n * K * (N - K) * (N - n))) (of_int (n * (N - n)))) (\<lambda>term2.
        let numerator = term1 - term2 in
        and_then (truediv (of_int (n * K * (N - K) * (N - n) * (N - 2) * (N - 3))) (of_int (N - 1)))
          (\<lambda>denominator.
        if denominator = 0 then Inr 0
        else
          and_then (truediv (of_int (N + 1) * numerator) denominator) (\<lambda>excess_kurtosis.
          Inr excess_kurtosis))))))"

text \<open>
  The loop of \<^verbatim>\<open>calculate_median\<close> over \<^verbatim>\<open>range(min(n, K) + 1)\<close>: \<open>pr\<close> is the
  probability of one value, \<open>cumulative\<close> the running sum on entry. \<open>None\<close> is the loop
  running to its end without a \<^verbatim>\<open>return\<close>.
\<close>

fun median_walk :: "(int \<Rightarrow> real) \<Rightarrow> real \<Rightarrow> int list \<Rightarrow> int option" where
  "median_walk pr cumulative [] = None"
| "median_walk pr cumulative (x # xs) =
     (let cumulative' = cumulative + pr x in
      if cumulative' \<ge> 0.5 then Some x else median_walk pr cumulative' xs)"

definition calculate_median :: "int \<Rightarrow> int \<Rightarrow> int \<Rightarrow> int result" where
  "calculate_median N K n =
     and_then (Hypergeometric_calculate_mean N K n) (\<lambda>mean.
       let floor_mean = py_int mean;
           ceil_mean = floor_mean + 1;
           prob_floor = Hypergeometric_calculate_probability N K n floor_mean;
           prob_ceil = (if ceil_mean \<le> min n K
                        then Hypergeometric_calculate_probability N K n ceil_mean else 0)
       in case median_walk (Hypergeometric_calculate_probability N K n) 0 [0..min n K] of
            Some x \<Rightarrow> Inr x
          | None \<Rightarrow> Inr floor_mean)"

definition interpret_skewness_by_median ::
    "int \<Rightarrow> int \<Rightarrow> int \<Rightarrow> (median_skew_text \<times> real \<times> int) result" where
  "interpret_skewness_by_median N K n =
     and_then (Hypergeometric_calculate_mean N K n) (\<lambda>mean.
     and_then (calculate_median N K n) (\<lambda>median.
       let interpretation =
             (if mean < of_int median - 0.1 then Sesgo_Negativo
              else if mean > of_int median + 0.1 then Sesgo_Positivo
              else Sesgo_Nulo)
       in Inr (interpretation, py_round mean 6, median)))"

definition Hypergeometric_calculate :: "int \<Rightarrow> int \<Rightarrow> int \<Rightarrow> int option \<Rightarrow> hypergeometric_result result" where
  "Hypergeometric_calculate N K n x =
     and_then (Hypergeometric_validate_inputs N K n x) (\<lambda>_.
     and_then (truediv (of_int K) (of_int N)) (\<lambda>p.
     and_then (Hypergeometric_calculate_mean N K n) (\<lambda>mean.
     and_then (Hypergeometric_calculate_variance N K n) (\<lambda>variance.
     and_then (Hypergeometric_calculate_std N K n) (\<lambda>std.
     and_then (Hypergeometric_calculate_skewness N K n) (\<lambda>skewness.
     and_then (Hypergeometric_calculate_kurtosis N K n) (\<lambda>kurtosis.
     and_then (interpret_skewness_by_median N K n) (\<lambda>(skewness_interp, mean_val, median_val).
     and_then (truediv (of_int n) (of_int N)) (\<lambda>ratio.
     Inr \<lparr>h_inputs = \<lparr>h_N = N, h_K = K, h_n = n, h_x = x, h_p = py_round p 6\<rparr>,
          h_population_type = Finita,
          h_sample_ratio = py_round ratio 4,
          h_statistics =
            \<lparr>h_mean = py_round mean 6,
             h_median = median_val,
             h_variance = py_round variance 6,
             h_std = py_round std 6,
             h_skewness = py_round skewness 6,
             h_kurtosis = py_round kurtosis 6\<rparr>,
          h_interpretations =
            \<lparr>h_skewness_text = skewness_interp,
             h_kurtosis_text = interpret_kurtosis kurtosis\<rparr>,
          h_probability_x =
            (case x of
               None \<Rightarrow> None
             | Some xv \<Rightarrow> Some (py_round (Hypergeometric_calculate_probability N K n xv) 6)),
          h_probability_x_pct =
            (case x of
               None \<Rightarrow> None
             | Some xv \<Rightarrow>
                 Some (py_round (Hypergeometric_calculate_probability N K n xv * 100) 4))\<rparr>)))))))))"

section \<open>services/data\_processor.py: analyze\_categorical\_column\<close>






section \<open>Basic facts\<close>

lemma and_then_Inr [simp]: "and_then (Inr v) f = f v"
  by (simp add: and_then_def)

lemma and_then_Inl [simp]: "and_then (Inl e) f = Inl e"
  by (simp add: and_then_def)

lemma truediv_nonzero: "b \<noteq> 0 \<Longrightarrow> truediv a b = Inr (a / b)"
  by (simp add: truediv_def)

lemma truediv_zero [simp]: "truediv a 0 = Inl ZeroDivisionError"
  by (simp add: truediv_def)

lemma math_sqrt_nonneg: "0 \<le> v \<Longrightarrow> math_sqrt v = Inr (sqrt v)"
  by (simp add: math_sqrt_def)

lemma round_half_even_eqI:
  assumes "of_int k - 1 / 2 < v" and "v < of_int k + 1 / 2"
  shows "round_half_even v = k"
proof -
  have "\<lfloor>v\<rfloor> = k \<or> \<lfloor>v\<rfloor> = k - 1"
    using assms by linarith
  then show ?thesis
  proof
    assume "\<lfloor>v\<rfloor> = k"
    then show ?thesis using assms by (simp add: round_half_even_def Let_def)
  next
    assume "\<lfloor>v\<rfloor> = k - 1"
    then show ?thesis using assms by (simp add: round_half_even_def Let_def)
  qed
qed

lemma round_half_even_of_int [simp]: "round_half_even (of_int k) = k"
  by (rule round_half_even_eqI) simp_all

lemma py_round_zero [simp]: "py_round 0 d = 0"
  using round_half_even_of_int [of 0] by (simp add: py_round_def del: round_half_even_of_int)

section \<open>Model selection\<close>



section \<open>Validation of the inputs\<close>

text \<open>
  C7. The validation of the Binomial engine accepts \<open>x = 0\<close> and \<open>x = n\<close> and rejects
  \<open>x = -1\<close> and \<open>x = n + 1\<close> with a \<^verbatim>\<open>ValueError\<close> (whatever the other arguments
  are, and with the message that names the range of \<open>x\<close> when they are valid). The validation
  of the Hypergeometric engine rejects \<open>x = K + 1\<close>, also when \<open>x \<le> n\<close>, and then with the
  message that names \<open>K\<close>, which is another message than the one for \<open>x > n\<close>.
\<close>

theorem validation_boundaries:
  "(0 < n \<and> 0 \<le> p \<and> p \<le> 1 \<and> (case N of None \<Rightarrow> True | Some Nv \<Rightarrow> 0 < Nv \<and> n \<le> Nv) \<longrightarrow>
      Binomial_validate_inputs n p (Some 0) N = Inr ()
    \<and> Binomial_validate_inputs n p (Some n) N = Inr ()
    \<and> Binomial_validate_inputs n p (Some (- 1)) N = Inl (ValueError (Successes_out_of_range n))
    \<and> Binomial_validate_inputs n p (Some (n + 1)) N = Inl (ValueError (Successes_out_of_range n)))
   \<and> (\<exists>m. Binomial_validate_inputs n p (Some (- 1)) N = Inl (ValueError m))
   \<and> (\<exists>m. Binomial_validate_inputs n p (Some (n + 1)) N = Inl (ValueError m))
   \<and> (0 < M \<and> 0 \<le> K \<and> K \<le> M \<and> 0 < k \<and> k \<le> M \<longrightarrow>
        (K + 1 \<le> k \<longrightarrow>
           Hypergeometric_validate_inputs M K k (Some (K + 1))
             = Inl (ValueError (Sample_successes_exceed_K K)))
      \<and> (\<exists>m. Hypergeometric_validate_inputs M K k (Some (K + 1)) = Inl (ValueError m))
      \<and> (k < x \<longrightarrow>
           Hypergeometric_validate_inputs M K k (Some x)
             = Inl (ValueError (Sample_successes_exceed_n k))))
   \<and> Sample_successes_exceed_K K \<noteq> Sample_successes_exceed_n k"
  by (auto simp: Binomial_validate_inputs_def Hypergeometric_validate_inputs_def
      split: option.splits)

theorem validation_boundaries_witness:
  "Binomial_validate_inputs 10 (1 / 2) (Some 0) (Some 100) = Inr ()
   \<and> Binomial_validate_inputs 10 (1 / 2) (Some 10) (Some 100) = Inr ()
   \<and> Binomial_validate_inputs 10 (1 / 2) (Some (- 1)) (Some 100)
       = Inl (ValueError (Successes_out_of_range 10))
   \<and> Binomial_validate_inputs 10 (1 / 2) (Some 11) (Some 100)
       = Inl (ValueError (Successes_out_of_range 10))
   \<and> Hypergeometric_validate_inputs 50 3 10 (Some 4) = Inl (ValueError (Sample_successes_exceed_K 3))
   \<and> Hypergeometric_validate_inputs 50 3 10 (Some 11) = Inl (ValueError (Sample_successes_exceed_n 10))"
  using validation_boundaries [of 10 "1 / 2" "Some 100" 50 3 10 11] by simp

section \<open>Moments of the Hypergeometric engine\<close>

text \<open>
  C3. With \<open>N = 1\<close> the quotient \<^verbatim>\<open>(N - n) / (N - 1)\<close> of
  \<^verbatim>\<open>calculate_variance\<close> has the divisor \<open>0\<close>: every input with \<open>N = 1\<close> that passes
  the validation makes \<^verbatim>\<open>calculate\<close> raise \<^verbatim>\<open>ZeroDivisionError\<close>, where the claim
  has it return a result.
\<close>

lemma variance_population_one:
  "Hypergeometric_calculate_variance 1 K n = Inl ZeroDivisionError"
  by (simp add: Hypergeometric_calculate_variance_def truediv_def Let_def)

theorem calculate_population_one_raises:
  assumes "Hypergeometric_validate_inputs 1 K n x = Inr ()"
  shows "Hypergeometric_calculate 1 K n x = Inl ZeroDivisionError"
  using assms
  by (simp add: Hypergeometric_calculate_def variance_population_one truediv_def
      Hypergeometric_calculate_mean_def)

theorem calculate_population_one_raises_witness:
  "Hypergeometric_validate_inputs 1 1 1 None = Inr ()
   \<and> Hypergeometric_calculate 1 1 1 None = Inl ZeroDivisionError"
proof -
  have v: "Hypergeometric_validate_inputs 1 1 1 None = Inr ()"
    by (simp add: Hypergeometric_validate_inputs_def)
  from v calculate_population_one_raises [OF v] show ?thesis by simp
qed

text \<open>
  C2. The excess kurtosis returns \<open>0\<close> for \<open>N \<le> 3\<close>, and returns a value for every valid
  input with \<open>n < N\<close>. With \<open>n = N\<close> and \<open>N \<ge> 4\<close>, a valid input, the quotient by
  \<^verbatim>\<open>n * (N - n)\<close> in \<^verbatim>\<open>term1\<close> is evaluated before the test of the denominator and
  raises \<^verbatim>\<open>ZeroDivisionError\<close>, where the claim has the function return \<open>0\<close>.
\<close>

lemma kurtosis_small_population:
  "N \<le> 3 \<Longrightarrow> Hypergeometric_calculate_kurtosis N K n = Inr 0"
  by (simp add: Hypergeometric_calculate_kurtosis_def)

lemma kurtosis_below_census:
  assumes "0 < N" and "0 \<le> K" and "K \<le> N" and "0 < n" and "n < N"
  shows "\<exists>v. Hypergeometric_calculate_kurtosis N K n = Inr v
           \<and> (K = 0 \<or> K = N \<or> N \<le> 3 \<longrightarrow> v = 0)"
  using assms
  by (auto simp: Hypergeometric_calculate_kurtosis_def truediv_def Let_def)

theorem kurtosis_census_raises:
  assumes "4 \<le> N"
  shows "Hypergeometric_calculate_kurtosis N K N = Inl ZeroDivisionError"
  using assms
  by (simp add: Hypergeometric_calculate_kurtosis_def truediv_def Let_def)

theorem kurtosis_census_raises_witness:
  "(4::int) \<le> 4 \<and> Hypergeometric_calculate_kurtosis 4 2 4 = Inl ZeroDivisionError"
  using kurtosis_census_raises [of 4 2] by simp

text \<open>
  C10. On every valid input the skewness returns a value. The value is \<open>0\<close> for \<open>N = 1\<close>
  and whenever the denominator \<open>sqrt (n K (N - K) (N - n)) (N - 2)\<close> is \<open>0\<close>, which is the case
  for \<open>K = 0\<close>, \<open>K = N\<close>, \<open>n = N\<close> and \<open>N = 2\<close>; on every other valid input it is the quotient of
  the closed form.
\<close>

theorem skewness_total:
  assumes "0 < N" and "0 \<le> K" and "K \<le> N" and "0 < n" and "n \<le> N"
  shows "\<exists>v. Hypergeometric_calculate_skewness N K n = Inr v
           \<and> (N = 1 \<longrightarrow> v = 0)
           \<and> (sqrt (of_int (n * K * (N - K) * (N - n))) * of_int (N - 2) = 0 \<longrightarrow> v = 0)
           \<and> (K = 0 \<or> K = N \<or> n = N \<or> N = 2 \<longrightarrow> v = 0)
           \<and> (N \<noteq> 1 \<and> K \<noteq> 0 \<and> K \<noteq> N \<and> n \<noteq> N \<and> N \<noteq> 2 \<longrightarrow>
                v = of_int (N - 2 * K) * sqrt (of_int (N - 1)) * of_int (N - 2 * n)
                    / (sqrt (of_int (n * K * (N - K) * (N - n))) * of_int (N - 2)))"
  using assms
  by (auto simp: Hypergeometric_calculate_skewness_def truediv_def math_sqrt_def Let_def
      mult_less_0_iff)

theorem skewness_total_witness:
  "Hypergeometric_calculate_skewness 2 1 1 = Inr 0
   \<and> Hypergeometric_calculate_skewness 10 0 3 = Inr 0
   \<and> Hypergeometric_calculate_skewness 10 10 3 = Inr 0
   \<and> Hypergeometric_calculate_skewness 10 4 10 = Inr 0
   \<and> Hypergeometric_calculate_skewness 1 1 1 = Inr 0"
  using skewness_total [of 2 1 1] skewness_total [of 10 0 3] skewness_total [of 10 10 3]
    skewness_total [of 10 4 10] skewness_total [of 1 1 1]
  by auto

section \<open>Statistics of the Binomial engine\<close>







lemma npq_pos: "0 < n \<Longrightarrow> 0 < p \<Longrightarrow> p < 1 \<Longrightarrow> 0 < real_of_int n * p * (1 - p)"
  by simp

lemma binomial_skewness_closed:
  assumes "0 < n" and "0 \<le> p" and "p \<le> 1"
  shows "Binomial_calculate_skewness n p
           = Inr (if p = 0 \<or> p = 1 then 0 else (1 - 2 * p) / sqrt (of_int n * p * (1 - p)))"
proof (cases "p = 0 \<or> p = 1")
  case True
  then show ?thesis by (auto simp: Binomial_calculate_skewness_def)
next
  case False
  with assms have pos: "0 < real_of_int n * p * (1 - p)" by (intro npq_pos) auto
  then have le: "0 \<le> real_of_int n * p * (1 - p)" by (rule less_imp_le)
  from pos have ne: "sqrt (real_of_int n * p * (1 - p)) \<noteq> 0"
    by (simp only: real_sqrt_eq_zero_cancel_iff)
  from False show ?thesis
    by (simp add: Binomial_calculate_skewness_def Let_def math_sqrt_nonneg [OF le]
        truediv_nonzero [OF ne])
qed

lemma binomial_kurtosis_closed:
  assumes "0 < n" and "0 \<le> p" and "p \<le> 1"
  shows "Binomial_calculate_kurtosis n p
           = Inr (if p = 0 \<or> p = 1 then 0 else (1 - 6 * p * (1 - p)) / (of_int n * p * (1 - p)))"
proof (cases "p = 0 \<or> p = 1")
  case True
  then show ?thesis by (auto simp: Binomial_calculate_kurtosis_def)
next
  case False
  with assms have "0 < real_of_int n * p * (1 - p)" by (intro npq_pos) auto
  then have ne: "real_of_int n * p * (1 - p) \<noteq> 0" by (rule less_imp_neq [symmetric])
  from False show ?thesis
    by (simp add: Binomial_calculate_kurtosis_def Let_def truediv_nonzero [OF ne])
qed

lemma binomial_std_closed:
  assumes "0 < n" and "0 \<le> p" and "p \<le> 1"
  shows "Binomial_calculate_std n p None = Inr (sqrt (Binomial_calculate_variance n p), None)"
proof -
  from assms have "0 \<le> real_of_int n * p * (1 - p)" by simp
  then show ?thesis
    by (simp add: Binomial_calculate_std_def Binomial_calculate_variance_def math_sqrt_def Let_def)
qed



lemma binomial_validate_ok:
  assumes "0 < n" and "0 \<le> p" and "p \<le> 1"
    and "case x of None \<Rightarrow> True | Some xv \<Rightarrow> 0 \<le> xv \<and> xv \<le> n"
    and "case N of None \<Rightarrow> True | Some Nv \<Rightarrow> 0 < Nv \<and> n \<le> Nv"
  shows "Binomial_validate_inputs n p x N = Inr ()"
  using assms by (auto simp: Binomial_validate_inputs_def split: option.splits)

lemma binomial_calculate_no_population:
  assumes "0 < n" and "0 \<le> p" and "p \<le> 1"
    and "case x of None \<Rightarrow> True | Some xv \<Rightarrow> 0 \<le> xv \<and> xv \<le> n"
  shows "\<exists>r. Binomial_calculate n p x None = Inr r
           \<and> b_population_type r = Infinita
           \<and> b_mean (b_statistics r) = py_round (of_int n * p) 6
           \<and> b_variance (b_statistics r) = py_round (of_int n * p * (1 - p)) 6
           \<and> b_std (b_statistics r) = py_round (sqrt (of_int n * p * (1 - p))) 6
           \<and> b_adjusted_std (b_statistics r) = None
           \<and> b_skewness (b_statistics r)
               = py_round (if p = 0 \<or> p = 1 then 0
                           else (1 - 2 * p) / sqrt (of_int n * p * (1 - p))) 6
           \<and> b_kurtosis (b_statistics r)
               = py_round (if p = 0 \<or> p = 1 then 0
                           else (1 - 6 * p * (1 - p)) / (of_int n * p * (1 - p))) 6"
proof -
  have val: "Binomial_validate_inputs n p x None = Inr ()"
    using assms by (intro binomial_validate_ok) simp_all
  have pt: "determine_population_type n None = Inr (False, None)"
    by (simp add: determine_population_type_def)
  note st = binomial_std_closed [OF assms(1-3)]
  note sk = binomial_skewness_closed [OF assms(1-3)]
  note ku = binomial_kurtosis_closed [OF assms(1-3)]
  show ?thesis
    unfolding Binomial_calculate_def val pt st sk ku
    by (simp add: Binomial_calculate_mean_def Binomial_calculate_variance_def
        round_if_truthy_def)
qed



section \<open>Analysis of a categorical column\<close>










section \<open>Median of the Hypergeometric engine and the interpretation of the skewness\<close>




















section \<open>Finite-population correction of the Binomial engine\<close>

text \<open>
  Where the adjusted standard deviation is not \<open>0\<close> and \<open>N > 1\<close>, the report is the one
  of the specification: a finite population with the adjusted standard deviation beside the
  uncorrected one when \<open>n / N > 0.05\<close>, an infinite population without it when
  \<open>n / N \<le> 0.05\<close>.
\<close>

lemma finite_population_reported:
  assumes "0 < n" and "0 < p" and "p < 1" and "n < Nv"
    and "real_of_int n / real_of_int Nv > 0.05"
    and "case x of None \<Rightarrow> True | Some xv \<Rightarrow> 0 \<le> xv \<and> xv \<le> n"
  shows "\<exists>r. Binomial_calculate n p x (Some Nv) = Inr r
           \<and> b_population_type r = Finita
           \<and> b_std (b_statistics r) = py_round (sqrt (of_int n * p * (1 - p))) 6
           \<and> b_adjusted_std (b_statistics r)
               = Some (py_round (sqrt (of_int n * p * (1 - p))
                                 * sqrt (of_int (Nv - n) / of_int (Nv - 1))) 6)"
proof -
  from assms have p: "0 \<le> p" "p \<le> 1" by simp_all
  have val: "Binomial_validate_inputs n p x (Some Nv) = Inr ()"
    using assms by (intro binomial_validate_ok) simp_all
  from assms have Nv: "real_of_int Nv \<noteq> 0" "real_of_int (Nv - 1) \<noteq> 0" by simp_all
  have pt: "determine_population_type n (Some Nv)
              = Inr (True, Some (real_of_int n / real_of_int Nv))"
    using assms(5) by (simp add: determine_population_type_def truediv_nonzero [OF Nv(1)])
  from assms have q: "0 < real_of_int (Nv - n) / real_of_int (Nv - 1)" by simp
  from q have cf: "calculate_correction_factor n Nv
                   = Inr (sqrt (real_of_int (Nv - n) / real_of_int (Nv - 1)))"
    unfolding calculate_correction_factor_def truediv_nonzero [OF Nv(2)] and_then_Inr
    by (intro math_sqrt_nonneg less_imp_le)
  from assms have v: "0 < real_of_int n * p * (1 - p)" by simp
  then have sq: "math_sqrt (real_of_int n * p * (1 - p)) = Inr (sqrt (real_of_int n * p * (1 - p)))"
    by (intro math_sqrt_nonneg less_imp_le)
  have st: "Binomial_calculate_std n p (Some Nv)
              = Inr (sqrt (real_of_int n * p * (1 - p)),
                     Some (sqrt (real_of_int n * p * (1 - p))
                           * sqrt (real_of_int (Nv - n) / real_of_int (Nv - 1))))"
    using assms(5)
    by (simp add: Binomial_calculate_std_def Binomial_calculate_variance_def sq
        truediv_nonzero [OF Nv(1)] cf Let_def)
  have "0 < sqrt (real_of_int n * p * (1 - p))
               * sqrt (real_of_int (Nv - n) / real_of_int (Nv - 1))"
    by (intro mult_pos_pos real_sqrt_gt_zero v q)
  then have ne: "sqrt (real_of_int n * p * (1 - p))
                       * sqrt (real_of_int (Nv - n) / real_of_int (Nv - 1)) \<noteq> 0"
    by (rule less_imp_neq [symmetric])
  note sk = binomial_skewness_closed [OF assms(1) p]
  note ku = binomial_kurtosis_closed [OF assms(1) p]
  from assms have Nv0: "Nv \<noteq> 0" by simp
  show ?thesis
    unfolding Binomial_calculate_def val pt st sk ku
    using ne Nv0 by (simp add: cf round_if_truthy_def)
qed

lemma infinite_population_reported:
  assumes "0 < n" and "0 \<le> p" and "p \<le> 1"
    and "case x of None \<Rightarrow> True | Some xv \<Rightarrow> 0 \<le> xv \<and> xv \<le> n"
    and "0 < Nv" and "n \<le> Nv" and "real_of_int n / real_of_int Nv \<le> 0.05"
  shows "\<exists>r. Binomial_calculate n p x (Some Nv) = Inr r
           \<and> b_population_type r = Infinita
           \<and> b_adjusted_std (b_statistics r) = None"
proof -
  have val: "Binomial_validate_inputs n p x (Some Nv) = Inr ()"
    using assms by (intro binomial_validate_ok) simp_all
  from assms have Nv: "real_of_int Nv \<noteq> 0" by simp
  have pt: "determine_population_type n (Some Nv)
              = Inr (False, Some (real_of_int n / real_of_int Nv))"
    using assms(7) by (simp add: determine_population_type_def truediv_nonzero [OF Nv])
  from assms have v: "0 \<le> real_of_int n * p * (1 - p)" by simp
  have st: "Binomial_calculate_std n p (Some Nv)
              = Inr (sqrt (real_of_int n * p * (1 - p)), None)"
    using assms(7)
    by (simp add: Binomial_calculate_std_def Binomial_calculate_variance_def
        math_sqrt_nonneg [OF v] truediv_nonzero [OF Nv] Let_def)
  note sk = binomial_skewness_closed [OF assms(1-3)]
  note ku = binomial_kurtosis_closed [OF assms(1-3)]
  show ?thesis
    unfolding Binomial_calculate_def val pt st sk ku
    by (simp add: round_if_truthy_def)
qed

text \<open>
  C4. The report of the adjusted standard deviation goes through the truth value of the
  number: with \<open>n = N = 5\<close> and \<open>p = 0.5\<close> the ratio \<open>n / N\<close> is \<open>1\<close>, the population is
  classified finite and the correction factor is reported as \<open>0\<close>, but the adjusted standard
  deviation, which is \<open>0\<close>, is reported as absent. With \<open>n = N = 1\<close> the quotient
  \<^verbatim>\<open>(N - n) / (N - 1)\<close> raises \<^verbatim>\<open>ZeroDivisionError\<close>.
\<close>

theorem adjusted_std_dropped:
  "(\<exists>r. Binomial_calculate 5 (1 / 2) None (Some 5) = Inr r
        \<and> b_population_type r = Finita
        \<and> b_adjusted_std (b_statistics r) = None
        \<and> b_correction_factor (b_statistics r) = Some 0)
   \<and> Binomial_calculate 1 (1 / 2) None (Some 1) = Inl ZeroDivisionError"
  by (simp add: Binomial_calculate_def Binomial_validate_inputs_def determine_population_type_def
      Binomial_calculate_std_def Binomial_calculate_variance_def calculate_correction_factor_def
      Binomial_calculate_skewness_def Binomial_calculate_kurtosis_def Binomial_calculate_mean_def
      truediv_def math_sqrt_def round_if_truthy_def Let_def)

end
